theory Spec2Isabelle
  imports Complex_Main "HOL-Library.Word"
begin

unbundle bit_operations_syntax

section \<open>The microphone listener (mic\_listener/listener.py)\<close>

text \<open>
  The listener captures fixed-size blocks of mono 16-bit PCM audio, classifies each block
  as speech or not, and cuts the stream into clips that it saves as WAV files. This theory
  embeds \<^verbatim>\<open>write_wav\<close>, \<^verbatim>\<open>pick_input_device\<close>, \<^verbatim>\<open>build_vad_fn\<close> and the body of
  \<^verbatim>\<open>main\<close> and proves properties of them.

  Conventions of the embedding:
  \<^item> a Python \<^verbatim>\<open>bytes\<close> object is a list of 8-bit words, a NumPy \<^verbatim>\<open>int16\<close> array a list
    of 16-bit words (arithmetic on them wraps, as NumPy's does);
  \<^item> a raised exception is the \<open>Inl\<close> branch of a sum;
  \<^item> Python floats are real numbers. A clock reading of a concrete run is a \<^verbatim>\<open>float64\<close>
    value: between 1073741824 and 2147483648 seconds (the years 2004 to 2038) these are
    the multiples of 1/4194304. The difference of two such readings less than a day apart
    and its product by 1000 are again \<^verbatim>\<open>float64\<close> values, so the test of line 155
    computes in \<^verbatim>\<open>float64\<close> exactly what it computes in the reals;
  \<^item> what the program gets from outside (the device list of sounddevice, the optional
    WebRTC detector, the clock, whether a file can be written) is a parameter.
\<close>

subsection \<open>Bytes, sample arrays and errors\<close>

type_synonym byte = "8 word"
type_synonym bytes = "byte list"
type_synonym int16 = "16 word"
type_synonym ndarray = "int16 list"

datatype error =
    ValueError
  | OSError
  | WaveError
  | PortAudioError
  | RuntimeError string
  | SystemExit int

text \<open>
  \<^verbatim>\<open>np.frombuffer(b, dtype=np.int16)\<close>: two bytes per sample, low byte first (the native
  order of the little-endian machines the program runs on); a buffer whose size is not a
  multiple of two raises \<^verbatim>\<open>ValueError\<close>.
\<close>

fun frombuffer_int16 :: "bytes \<Rightarrow> error + ndarray" where
  "frombuffer_int16 [] = Inr []"
| "frombuffer_int16 [b] = Inl ValueError"
| "frombuffer_int16 (lo # hi # bs) =
     (case frombuffer_int16 bs of
        Inl e \<Rightarrow> Inl e
      | Inr arr \<Rightarrow> Inr (word_cat hi lo # arr))"

text \<open>\<^verbatim>\<open>arr.tobytes()\<close> of an \<^verbatim>\<open>int16\<close> array.\<close>

definition tobytes :: "ndarray \<Rightarrow> bytes" where
  "tobytes arr = concat (map (\<lambda>w. [ucast w, ucast (drop_bit 8 w)]) arr)"

text \<open>\<^verbatim>\<open>np.concatenate(buf) if buf else np.array([], dtype=np.int16)\<close>.\<close>

definition np_concatenate :: "ndarray list \<Rightarrow> ndarray" where
  "np_concatenate buf = (if buf \<noteq> [] then concat buf else [])"

text \<open>
  \<^verbatim>\<open>np.abs\<close> on an \<^verbatim>\<open>int16\<close> array keeps the element type, so the negation wraps;
  \<^verbatim>\<open>.mean()\<close> sums the signed values and divides by the size.
\<close>

definition np_abs :: "int16 \<Rightarrow> int16" where
  "np_abs w = (if sint w < 0 then - w else w)"

definition np_mean :: "ndarray \<Rightarrow> real" where
  "np_mean arr = real_of_int (sum_list (map sint arr)) / real (length arr)"

subsection \<open>The frame classifier: \<^verbatim>\<open>build_vad_fn\<close>\<close>

definition THRESH :: real where
  "THRESH = 300"

text \<open>The fallback \<^verbatim>\<open>is_speech_chunk\<close> of the \<^verbatim>\<open>else\<close> branch (lines 83 to 87).\<close>

definition is_speech_chunk_rms :: "bytes \<Rightarrow> error + bool" where
  "is_speech_chunk_rms b =
     (case frombuffer_int16 b of
        Inl e \<Rightarrow> Inl e
      | Inr arr \<Rightarrow>
          if length arr = 0 then Inr False
          else Inr (np_mean (map np_abs arr) > THRESH))"

text \<open>
  \<^verbatim>\<open>build_vad_fn\<close>: \<open>have_vad\<close> is the module flag \<^verbatim>\<open>HAVE_VAD\<close>, and \<open>vad_is_speech\<close>
  stands for \<^verbatim>\<open>webrtcvad.Vad(aggressiveness).is_speech(b, samplerate)\<close>, which is not
  part of this repository.
\<close>

definition build_vad_fn ::
  "bool \<Rightarrow> (int \<Rightarrow> bytes \<Rightarrow> int \<Rightarrow> error + bool) \<Rightarrow> int \<Rightarrow> int \<Rightarrow> (bytes \<Rightarrow> error + bool)" where
  "build_vad_fn have_vad vad_is_speech samplerate aggressiveness =
     (if have_vad then (\<lambda>b. vad_is_speech aggressiveness b samplerate)
      else is_speech_chunk_rms)"

text \<open>
  The mean absolute amplitude of a frame as the specification means it: the mean of the
  absolute values of the samples, taken as integers. It is used only to state properties
  of the classifier.
\<close>

definition mean_abs_amplitude :: "ndarray \<Rightarrow> real" where
  "mean_abs_amplitude arr = real_of_int (sum_list (map (\<lambda>w. \<bar>sint w\<bar>) arr)) / real (length arr)"

subsection \<open>Strings as Python handles them\<close>


definition py_isdigit :: "string \<Rightarrow> bool" where
  "py_isdigit s = (s \<noteq> [] \<and> list_all (\<lambda>c. c \<in> set ''0123456789'') s)"

definition digit_value :: "char \<Rightarrow> int" where
  "digit_value c = int (of_char c) - 48"

definition py_int_str :: "string \<Rightarrow> int" where
  "py_int_str s = foldl (\<lambda>acc c. 10 * acc + digit_value c) 0 s"

text \<open>
  \<^verbatim>\<open>int(s)\<close> for a string of decimal digits: CPython raises \<^verbatim>\<open>ValueError\<close> when the
  string has more digits than \<^verbatim>\<open>sys.int_max_str_digits\<close>, 4300 unless reconfigured.
\<close>

definition py_int :: "string \<Rightarrow> error + int" where
  "py_int s = (if length s > 4300 then Inl ValueError else Inr (py_int_str s))"

text \<open>\<^verbatim>\<open>str.lower()\<close> on ASCII text: the capital letters change, nothing else does.\<close>

definition lower_char :: "char \<Rightarrow> char" where
  "lower_char c =
     (case map_of (zip ''ABCDEFGHIJKLMNOPQRSTUVWXYZ'' ''abcdefghijklmnopqrstuvwxyz'') c of
        Some l \<Rightarrow> l
      | None \<Rightarrow> c)"

definition py_lower :: "string \<Rightarrow> string" where
  "py_lower s = map lower_char s"

text \<open>\<^verbatim>\<open>x in s\<close> on strings: \<open>x\<close> occurs in \<open>s\<close> as a contiguous substring.\<close>

fun starts_with :: "string \<Rightarrow> string \<Rightarrow> bool" where
  "starts_with [] s = True"
| "starts_with (c # cs) [] = False"
| "starts_with (c # cs) (d # ds) = (c = d \<and> starts_with cs ds)"

fun py_in :: "string \<Rightarrow> string \<Rightarrow> bool" where
  "py_in x [] = (x = [])"
| "py_in x (c # cs) = (starts_with x (c # cs) \<or> py_in x cs)"

text \<open>\<^verbatim>\<open>os.path.join(a, p)\<close> with two arguments on POSIX.\<close>

definition os_path_join :: "string \<Rightarrow> string \<Rightarrow> string" where
  "os_path_join a p =
     (if starts_with ''/'' p then p
      else if a = [] \<or> last a = CHR ''/'' then a @ p
      else a @ ''/'' @ p)"

subsection \<open>Device selection: \<^verbatim>\<open>pick_input_device\<close>\<close>

record device =
  name :: string
  max_input_channels :: int
  default_samplerate :: "real option"

text \<open>
  The argument \<^verbatim>\<open>preferred: str | int | None\<close>; \<open>None\<close> is the \<open>None\<close> of
  \<open>selector option\<close>.
\<close>

datatype selector = PInt int | PStr string

fun is_numeric :: "selector \<Rightarrow> bool" where
  "is_numeric (PInt i) = True"
| "is_numeric (PStr s) = py_isdigit s"

fun int_of_selector :: "selector \<Rightarrow> error + int" where
  "int_of_selector (PInt i) = Inr i"
| "int_of_selector (PStr s) = py_int s"

text \<open>The string branch is reached with a \<^verbatim>\<open>str\<close> only, where \<^verbatim>\<open>str(preferred)\<close> is the string itself.\<close>

fun str_of_selector :: "selector \<Rightarrow> string" where
  "str_of_selector (PStr s) = s"
| "str_of_selector (PInt i) = []"

text \<open>\<^verbatim>\<open>for i, d in enumerate(devs): if cond(d): return i\<close>, counting from \<open>i\<close>.\<close>

fun enumerate_find :: "(device \<Rightarrow> bool) \<Rightarrow> int \<Rightarrow> device list \<Rightarrow> int option" where
  "enumerate_find cond i [] = None"
| "enumerate_find cond i (d # ds) = (if cond d then Some i else enumerate_find cond (i + 1) ds)"

text \<open>
  \<open>devs\<close> is the result of \<^verbatim>\<open>sd.query_devices()\<close>, and \<open>check_input_settings idx\<close> tells
  whether \<^verbatim>\<open>sd.check_input_settings(device=idx, channels=1)\<close> returns without raising
  (sounddevice raises \<^verbatim>\<open>PortAudioError\<close> otherwise).
\<close>

definition pick_input_device ::
  "device list \<Rightarrow> (int \<Rightarrow> bool) \<Rightarrow> selector option \<Rightarrow> error + int" where
  "pick_input_device devs check_input_settings preferred =
     (case preferred of
        Some p \<Rightarrow>
          if is_numeric p then
            (case int_of_selector p of
               Inl e \<Rightarrow> Inl e
             | Inr idx \<Rightarrow> if check_input_settings idx then Inr idx else Inl PortAudioError)
          else
            (let nm = py_lower (str_of_selector p)
             in case enumerate_find
                       (\<lambda>d. max_input_channels d > 0 \<and> py_in nm (py_lower (name d))) 0 devs of
                  Some i \<Rightarrow> Inr i
                | None \<Rightarrow>
                    Inl (RuntimeError (''Requested device '' @ [CHR 0x27] @ str_of_selector p
                           @ [CHR 0x27] @ '' not found or not input-capable.'')))
      | None \<Rightarrow>
          (case enumerate_find (\<lambda>d. max_input_channels d > 0) 0 devs of
             Some i \<Rightarrow> Inr i
           | None \<Rightarrow> Inl (RuntimeError ''No input-capable audio device found.'')))"

subsection \<open>Command line and start-up of \<^verbatim>\<open>main\<close>\<close>

text \<open>
  What the user typed: every option is optional. \<open>parse_args\<close> is \<^verbatim>\<open>ap.parse_args()\<close>
  with the defaults of lines 93 to 99 (the conversions of \<^verbatim>\<open>type=int\<close> have been done).
\<close>

record cmdline =
  opt_device :: "string option"
  opt_aggressiveness :: "int option"
  opt_silence_ms :: "int option"
  opt_samplerate :: "int option"
  opt_block_ms :: "int option"
  opt_list_devices :: bool

record args =
  arg_device :: "string option"
  arg_aggressiveness :: int
  arg_silence_ms :: int
  arg_samplerate :: int
  arg_block_ms :: int
  arg_list_devices :: bool

definition with_default :: "'a \<Rightarrow> 'a option \<Rightarrow> 'a" where
  "with_default d v = (case v of None \<Rightarrow> d | Some x \<Rightarrow> x)"

definition parse_args :: "cmdline \<Rightarrow> args" where
  "parse_args c =
     \<lparr> arg_device = opt_device c,
       arg_aggressiveness = with_default 2 (opt_aggressiveness c),
       arg_silence_ms = with_default 1500 (opt_silence_ms c),
       arg_samplerate = with_default 16000 (opt_samplerate c),
       arg_block_ms = with_default 30 (opt_block_ms c),
       arg_list_devices = opt_list_devices c \<rparr>"

text \<open>\<^verbatim>\<open>int(x)\<close> of a float truncates towards zero.\<close>

definition py_int_of_float :: "real \<Rightarrow> int" where
  "py_int_of_float x = (if x < 0 then \<lceil>x\<rceil> else \<lfloor>x\<rfloor>)"

text \<open>
  Line 115:
  \<^verbatim>\<open>samplerate = int(args.samplerate or dev_info.get("default_samplerate", 16000)) or 16000\<close>.
  \<^verbatim>\<open>a or b\<close> is \<open>a\<close> unless \<open>a\<close> is zero.
\<close>

definition main_samplerate :: "args \<Rightarrow> device \<Rightarrow> int" where
  "main_samplerate a dev_info =
     (let v = (if arg_samplerate a \<noteq> 0 then real_of_int (arg_samplerate a)
               else (case default_samplerate dev_info of Some d \<Rightarrow> d | None \<Rightarrow> 16000));
          r = py_int_of_float v
      in if r \<noteq> 0 then r else 16000)"

text \<open>Line 117: \<^verbatim>\<open>block_size = int(samplerate * block_ms / 1000)\<close>.\<close>

definition main_block_size :: "int \<Rightarrow> int \<Rightarrow> int" where
  "main_block_size samplerate block_ms = py_int_of_float (real_of_int (samplerate * block_ms) / 1000)"

text \<open>What \<^verbatim>\<open>main\<close> gets from the machine it runs on.\<close>

record platform =
  query_devices :: "device list"
  check_input_settings :: "int \<Rightarrow> bool"
  HAVE_VAD :: bool
  vad_is_speech :: "int \<Rightarrow> bytes \<Rightarrow> int \<Rightarrow> error + bool"
  getenv_AUDIO_DIR :: "string option"

text \<open>The parameters of \<^verbatim>\<open>sd.RawInputStream\<close> (lines 132 to 137).\<close>

record raw_input_stream =
  stream_samplerate :: int
  stream_blocksize :: int
  stream_channels :: int
  stream_device :: int

text \<open>The variables of \<^verbatim>\<open>main\<close> and of the module that the capture loop reads.\<close>

record main_env =
  AUDIO_DIR :: string
  silence_ms :: int
  samplerate :: int
  is_speech_chunk :: "bytes \<Rightarrow> error + bool"

text \<open>
  Lines 37 and 107 to 137, for a run that is not \<^verbatim>\<open>--list-devices\<close>: the device is
  resolved (any exception ends the process with \<^verbatim>\<open>sys.exit(1)\<close>), the sample rate and
  block size are computed, the classifier is built and the stream is opened.
  \<^verbatim>\<open>sd.query_devices(device)\<close> raises \<^verbatim>\<open>PortAudioError\<close> for an index that is no device.
\<close>

definition main_start :: "platform \<Rightarrow> args \<Rightarrow> error + (raw_input_stream \<times> main_env)" where
  "main_start pf a =
     (case pick_input_device (query_devices pf) (check_input_settings pf)
             (map_option PStr (arg_device a)) of
        Inl e \<Rightarrow> Inl (SystemExit 1)
      | Inr device \<Rightarrow>
          if device < 0 \<or> device \<ge> int (length (query_devices pf)) then Inl PortAudioError
          else
            (let dev_info = query_devices pf ! nat device;
                 sr = main_samplerate a dev_info;
                 block_ms = arg_block_ms a;
                 block_size = main_block_size sr block_ms
             in Inr (\<lparr> stream_samplerate = sr, stream_blocksize = block_size,
                       stream_channels = 1, stream_device = device \<rparr>,
                     \<lparr> AUDIO_DIR = with_default ''/mnt/wodehouse_data/shared/audio''
                                     (getenv_AUDIO_DIR pf),
                       silence_ms = arg_silence_ms a,
                       samplerate = sr,
                       is_speech_chunk =
                         build_vad_fn (HAVE_VAD pf) (vad_is_speech pf) sr (arg_aggressiveness a) \<rparr>)))"

subsection \<open>Writing a clip: \<^verbatim>\<open>write_wav\<close>\<close>

text \<open>
  What the \<^verbatim>\<open>wave\<close> module puts into the file: the three header fields set by the
  program and the sample data. \<open>can_open\<close> tells whether \<^verbatim>\<open>wave.open(path, "wb")\<close> can
  create the file (it raises \<^verbatim>\<open>OSError\<close> otherwise); \<^verbatim>\<open>setframerate\<close> raises
  \<^verbatim>\<open>wave.Error\<close> for a rate that is not positive.
\<close>

record wav_file =
  nchannels :: int
  sampwidth :: int
  framerate :: int
  frames :: bytes

definition write_wav :: "bool \<Rightarrow> string \<Rightarrow> ndarray \<Rightarrow> int \<Rightarrow> error + (string \<times> wav_file)" where
  "write_wav can_open path audio sr =
     (if \<not> can_open then Inl OSError
      else if sr \<le> 0 then Inl WaveError
      else Inr (path, \<lparr> nchannels = 1, sampwidth = 2, framerate = sr, frames = tobytes audio \<rparr>))"

subsection \<open>The clock and \<^verbatim>\<open>time.strftime\<close>\<close>

record struct_time =
  tm_year :: nat
  tm_mon :: nat
  tm_mday :: nat
  tm_hour :: nat
  tm_min :: nat
  tm_sec :: nat

text \<open>
  One reading of the system clock: \<^verbatim>\<open>time.time()\<close> returns its \<open>epoch\<close> (seconds), and
  \<^verbatim>\<open>time.strftime(fmt)\<close> formats its \<open>localtime\<close>.
\<close>

record clock_reading =
  epoch :: real
  localtime :: struct_time

definition digit_char :: "nat \<Rightarrow> char" where
  "digit_char n = ''0123456789'' ! (n mod 10)"

definition dec2 :: "nat \<Rightarrow> string" where
  "dec2 n = [digit_char (n div 10), digit_char n]"

text \<open>\<^verbatim>\<open>%Y\<close>, for the four-digit years the program runs in.\<close>

definition dec4 :: "nat \<Rightarrow> string" where
  "dec4 n = [digit_char (n div 1000), digit_char (n div 100), digit_char (n div 10), digit_char n]"

text \<open>\<^verbatim>\<open>time.strftime("%Y%m%d_%H%M%S")\<close> at the clock reading \<open>t\<close>.\<close>

definition strftime :: "struct_time \<Rightarrow> string" where
  "strftime t =
     dec4 (tm_year t) @ dec2 (tm_mon t) @ dec2 (tm_mday t) @ ''_''
       @ dec2 (tm_hour t) @ dec2 (tm_min t) @ dec2 (tm_sec t)"

subsection \<open>The capture loop of \<^verbatim>\<open>main\<close> (lines 139 to 163)\<close>

text \<open>The three variables of the loop; \<open>recording = False\<close> is the state Idle.\<close>

record loop_state =
  buf :: "ndarray list"
  last_voice_ts :: "real option"
  recording :: bool

definition initial_state :: loop_state where
  "initial_state = \<lparr> buf = [], last_voice_ts = None, recording = False \<rparr>"

text \<open>
  What one iteration takes from outside: the block returned by \<^verbatim>\<open>q.get()\<close>, the clock
  as read by \<^verbatim>\<open>time.time()\<close> on line 151, by \<^verbatim>\<open>time.time()\<close> on line 155 and by
  \<^verbatim>\<open>time.strftime\<close> on line 157 (each read only if its line is reached), and whether
  the clip file can be created.
\<close>

record event =
  frame :: bytes
  at_voice :: clock_reading
  at_check :: clock_reading
  at_name :: clock_reading
  can_write :: bool

text \<open>
  \<^verbatim>\<open>last_voice_ts and (time.time() - last_voice_ts) * 1000 > args.silence_ms\<close>:
  \<^verbatim>\<open>None\<close> and \<^verbatim>\<open>0.0\<close> are both false.
\<close>

definition silence_elapsed :: "real option \<Rightarrow> real \<Rightarrow> int \<Rightarrow> bool" where
  "silence_elapsed ts now ms =
     (case ts of
        None \<Rightarrow> False
      | Some t \<Rightarrow> t \<noteq> 0 \<and> (now - t) * 1000 > real_of_int ms)"

text \<open>
  One iteration of \<^verbatim>\<open>while True\<close>. The result is the exception that leaves the loop, or
  the new state with the file written by this iteration, if any. The two \<^verbatim>\<open>print\<close>
  calls are left out.
\<close>

definition loop_body ::
  "main_env \<Rightarrow> loop_state \<Rightarrow> event \<Rightarrow> error + (loop_state \<times> (string \<times> wav_file) option)" where
  "loop_body env s ev =
     (case is_speech_chunk env (frame ev) of
        Inl e \<Rightarrow> Inl e
      | Inr speech \<Rightarrow>
          (let s1 = (if speech then
                       (if \<not> recording s then s\<lparr>recording := True, buf := []\<rparr> else s)
                         \<lparr>last_voice_ts := Some (epoch (at_voice ev))\<rparr>
                     else s)
           in if recording s1 then
                (case frombuffer_int16 (frame ev) of
                   Inl e \<Rightarrow> Inl e
                 | Inr arr \<Rightarrow>
                     (let s2 = s1\<lparr>buf := buf s1 @ [arr]\<rparr>
                      in if silence_elapsed (last_voice_ts s2) (epoch (at_check ev)) (silence_ms env)
                         then
                           (let clip = np_concatenate (buf s2);
                                ts = strftime (localtime (at_name ev));
                                path = os_path_join (AUDIO_DIR env) (''clip_'' @ ts @ ''.wav'')
                            in case write_wav (can_write ev) path clip (samplerate env) of
                                 Inl e \<Rightarrow> Inl e
                               | Inr w \<Rightarrow> Inr (s2\<lparr>recording := False, buf := []\<rparr>, Some w))
                         else Inr (s2, None)))
              else Inr (s1, None)))"

fun files_of :: "(string \<times> wav_file) option \<Rightarrow> (string \<times> wav_file) list" where
  "files_of None = []"
| "files_of (Some w) = [w]"

text \<open>
  The loop over the blocks that arrive, in order. It has no exit of its own: when the
  blocks run out it waits in \<^verbatim>\<open>q.get()\<close>, and the result is then the state it waits in
  with the files written so far. An exception leaves the loop (only
  \<^verbatim>\<open>KeyboardInterrupt\<close> is caught, after the loop) and later blocks are not read.
\<close>

fun main_loop ::
  "main_env \<Rightarrow> loop_state \<Rightarrow> event list \<Rightarrow> error + (loop_state \<times> (string \<times> wav_file) list)" where
  "main_loop env s [] = Inr (s, [])"
| "main_loop env s (ev # evs) =
     (case loop_body env s ev of
        Inl e \<Rightarrow> Inl e
      | Inr (s', w) \<Rightarrow>
          (case main_loop env s' evs of
             Inl e \<Rightarrow> Inl e
           | Inr (s'', ws) \<Rightarrow> Inr (s'', files_of w @ ws)))"

subsection \<open>The loop, the queue and the wall clock together\<close>

text \<open>
  The callback of the stream puts each block into the queue (line 129); the loop takes
  them out with a blocking \<^verbatim>\<open>q.get()\<close> (line 145). Time passes whether or not blocks
  arrive. An iteration needs a block in the queue, and reads the clock no earlier than
  the time it starts at.
\<close>

record system =
  ep :: loop_state
  queue :: "bytes list"
  wall :: real
  saved :: "(string \<times> wav_file) list"

datatype action =
    Elapse real
  | Deliver bytes
  | Iterate clock_reading clock_reading clock_reading bool

fun is_delivery :: "action \<Rightarrow> bool" where
  "is_delivery (Deliver b) = True"
| "is_delivery a = False"

inductive sys_step :: "main_env \<Rightarrow> system \<Rightarrow> action \<Rightarrow> system \<Rightarrow> bool" for env where
  elapse:
    "0 \<le> d \<Longrightarrow> sys_step env c (Elapse d) (c\<lparr>wall := wall c + d\<rparr>)"
| deliver:
    "sys_step env c (Deliver b) (c\<lparr>queue := queue c @ [b]\<rparr>)"
| iterate:
    "queue c = b # bs \<Longrightarrow>
     wall c \<le> epoch r1 \<Longrightarrow> epoch r1 \<le> epoch r2 \<Longrightarrow> epoch r2 \<le> epoch r3 \<Longrightarrow>
     loop_body env (ep c)
       \<lparr> frame = b, at_voice = r1, at_check = r2, at_name = r3, can_write = w \<rparr> = Inr (s', out) \<Longrightarrow>
     sys_step env c (Iterate r1 r2 r3 w)
       \<lparr> ep = s', queue = bs, wall = epoch r3, saved = saved c @ files_of out \<rparr>"

inductive sys_run :: "main_env \<Rightarrow> system \<Rightarrow> action list \<Rightarrow> system \<Rightarrow> bool" for env where
  run_nil: "sys_run env c [] c"
| run_cons: "sys_step env c a c' \<Longrightarrow> sys_run env c' as c'' \<Longrightarrow> sys_run env c (a # as) c''"

subsection \<open>Concrete runs\<close>

text \<open>
  The path of the clip written by the iteration that consumes \<open>ev\<close>, as lines 157 and
  158 build it.
\<close>

definition clip_path :: "main_env \<Rightarrow> event \<Rightarrow> string" where
  "clip_path env ev =
     os_path_join (AUDIO_DIR env) (''clip_'' @ strftime (localtime (at_name ev)) @ ''.wav'')"

text \<open>
  Blocks of 480 samples (30 ms at 16 kHz): a loud one and a silent one. The environment
  is the one \<^verbatim>\<open>main\<close> builds without WebRTC VAD, at 16 kHz, with the default output
  directory and the given \<^verbatim>\<open>--silence_ms\<close>.
\<close>

definition speech_samples :: ndarray where
  "speech_samples = replicate 480 1000"

definition quiet_samples :: ndarray where
  "quiet_samples = replicate 480 0"

definition speech_block :: bytes where
  "speech_block = tobytes speech_samples"

definition quiet_block :: bytes where
  "quiet_block = tobytes quiet_samples"

definition demo_env :: "int \<Rightarrow> main_env" where
  "demo_env ms =
     \<lparr> AUDIO_DIR = ''/mnt/wodehouse_data/shared/audio'', silence_ms = ms,
       samplerate = 16000, is_speech_chunk = is_speech_chunk_rms \<rparr>"

text \<open>
  An iteration that takes no time: the three clock reads see the same reading.
\<close>

definition block_at :: "bytes \<Rightarrow> clock_reading \<Rightarrow> bool \<Rightarrow> event" where
  "block_at b r w = \<lparr> frame = b, at_voice = r, at_check = r, at_name = r, can_write = w \<rparr>"

text \<open>
  The \<^verbatim>\<open>float64\<close> nearest to \<open>n / 1000\<close> seconds, for an instant of \<open>n\<close> milliseconds
  between 1073741824 and 2147483648 seconds, where the \<^verbatim>\<open>float64\<close> values are the
  multiples of 1/4194304: this is what \<^verbatim>\<open>time.time()\<close> returns at that instant.
\<close>

definition float64_of_ms :: "int \<Rightarrow> real" where
  "float64_of_ms n = real_of_int ((2 * n * 4194304 + 1000) div 2000) / 4194304"

text \<open>
  The clock \<open>ms\<close> milliseconds after 2023-11-14 22:13:20 UTC (epoch 1700000000), read in
  the UTC zone; \<open>ms\<close> is below 2000.
\<close>

definition clock_at :: "nat \<Rightarrow> clock_reading" where
  "clock_at ms =
     \<lparr> epoch = float64_of_ms (1700000000000 + int ms),
       localtime = \<lparr> tm_year = 2023, tm_mon = 11, tm_mday = 14, tm_hour = 22, tm_min = 13,
                     tm_sec = 20 + ms div 1000 \<rparr> \<rparr>"

text \<open>
  The blocks of the 30 ms scenario, two speech blocks and nine silent ones, for any clock:
  in the iteration that consumes the k-th block, line 151 reads \<open>v k\<close>, line 155 reads
  \<open>c k\<close> and line 157 reads \<open>n k\<close>.
\<close>

definition timed_block ::
  "bytes \<Rightarrow> clock_reading \<Rightarrow> clock_reading \<Rightarrow> clock_reading \<Rightarrow> event" where
  "timed_block b rv rc rn =
     \<lparr> frame = b, at_voice = rv, at_check = rc, at_name = rn, can_write = True \<rparr>"

definition timed_scenario ::
  "(nat \<Rightarrow> clock_reading) \<Rightarrow> (nat \<Rightarrow> clock_reading) \<Rightarrow> (nat \<Rightarrow> clock_reading) \<Rightarrow> event list" where
  "timed_scenario v c n =
     [timed_block speech_block (v 1) (c 1) (n 1), timed_block speech_block (v 2) (c 2) (n 2),
      timed_block quiet_block (v 3) (c 3) (n 3), timed_block quiet_block (v 4) (c 4) (n 4),
      timed_block quiet_block (v 5) (c 5) (n 5), timed_block quiet_block (v 6) (c 6) (n 6),
      timed_block quiet_block (v 7) (c 7) (n 7), timed_block quiet_block (v 8) (c 8) (n 8),
      timed_block quiet_block (v 9) (c 9) (n 9), timed_block quiet_block (v 10) (c 10) (n 10),
      timed_block quiet_block (v 11) (c 11) (n 11)]"

text \<open>
  A clock that is read \<open>a\<close> seconds (line 151) and \<open>b\<close> seconds (lines 155 and 157) after
  the delivery of each block, the k-th block being delivered \<open>30 k\<close> ms after \<open>t0\<close>.
\<close>

definition delayed_clock :: "real \<Rightarrow> real \<Rightarrow> struct_time \<Rightarrow> nat \<Rightarrow> clock_reading" where
  "delayed_clock t0 a lt k = \<lparr> epoch = t0 + 3 * real k / 100 + a, localtime = lt \<rparr>"

text \<open>
  The scenario on the clock above, the k-th block consumed 30 k milliseconds after the
  start by an iteration whose clock reads all return the same value.
\<close>

definition scenario :: "event list" where
  "scenario =
     [block_at speech_block (clock_at 30) True, block_at speech_block (clock_at 60) True,
      block_at quiet_block (clock_at 90) True, block_at quiet_block (clock_at 120) True,
      block_at quiet_block (clock_at 150) True, block_at quiet_block (clock_at 180) True,
      block_at quiet_block (clock_at 210) True, block_at quiet_block (clock_at 240) True,
      block_at quiet_block (clock_at 270) True, block_at quiet_block (clock_at 300) True,
      block_at quiet_block (clock_at 330) True]"

text \<open>The same blocks at the same times, on a disk where no file can be created.\<close>

definition scenario_unwritable :: "event list" where
  "scenario_unwritable = map (\<lambda>ev. ev\<lparr>can_write := False\<rparr>) scenario"

text \<open>
  One speech block 900 ms into the second 22:13:20, followed by six silent blocks; the
  last three fall into the second 22:13:21.
\<close>

definition scenario_boundary :: "event list" where
  "scenario_boundary =
     [block_at speech_block (clock_at 900) True, block_at quiet_block (clock_at 930) True,
      block_at quiet_block (clock_at 960) True, block_at quiet_block (clock_at 990) True,
      block_at quiet_block (clock_at 1020) True, block_at quiet_block (clock_at 1050) True,
      block_at quiet_block (clock_at 1080) True]"

text \<open>
  A machine with four audio devices and no WebRTC VAD, and a command line that selects
  the device by name and shortens the silence timeout.
\<close>

definition demo_devices :: "device list" where
  "demo_devices =
     [\<lparr> name = ''USB Speakers'', max_input_channels = 0, default_samplerate = Some 48000 \<rparr>,
      \<lparr> name = ''Built-in Microphone'', max_input_channels = 2, default_samplerate = Some 44100 \<rparr>,
      \<lparr> name = ''USB Microphone'', max_input_channels = 1, default_samplerate = Some 44100 \<rparr>,
      \<lparr> name = ''usb webcam mic'', max_input_channels = 1, default_samplerate = Some 48000 \<rparr>]"

definition demo_platform :: platform where
  "demo_platform =
     \<lparr> query_devices = demo_devices,
       check_input_settings = (\<lambda>idx. idx \<in> {1, 2, 3}),
       HAVE_VAD = False,
       vad_is_speech = (\<lambda>aggressiveness b sr. Inl (RuntimeError ''webrtcvad is not installed'')),
       getenv_AUDIO_DIR = None \<rparr>"

definition demo_cmdline :: cmdline where
  "demo_cmdline =
     \<lparr> opt_device = Some ''usb'', opt_aggressiveness = None, opt_silence_ms = Some 150,
       opt_samplerate = None, opt_block_ms = None, opt_list_devices = False \<rparr>"

text \<open>
  The loop in Recording, three blocks into the 30 ms scenario, with an empty queue.
\<close>

definition waiting :: system where
  "waiting =
     \<lparr> ep = \<lparr> buf = [speech_samples, speech_samples, quiet_samples],
              last_voice_ts = Some (epoch (clock_at 60)), recording = True \<rparr>,
       queue = [], wall = epoch (clock_at 90), saved = [] \<rparr>"

section \<open>Properties\<close>

subsection \<open>Sample arrays\<close>

lemma word_cat_split_int16:
  "word_cat (ucast (drop_bit 8 w) :: byte) (ucast w :: byte) = (w :: int16)"
  by (rule bit_word_eqI) (auto simp add: bit_simps)

lemma frombuffer_tobytes: "frombuffer_int16 (tobytes arr) = Inr arr"
  by (induction arr) (simp_all add: tobytes_def word_cat_split_int16)

text \<open>
  \<open>np_abs\<close> is the absolute value except at the least \<^verbatim>\<open>int16\<close>, which it leaves
  negative.
\<close>

lemma sint_np_abs:
  assumes "sint w \<noteq> - 32768"
  shows "sint (np_abs w) = \<bar>sint w\<bar>"
proof -
  have lo: "- 32768 \<le> sint w" using sint_ge [of w] by simp
  have hi: "sint w < 32768" using sint_lt [of w] by simp
  have "sint (- w) = signed_take_bit 15 (- sint w)"
    using sint_word_ariths(4) [of w] by simp
  also have "\<dots> = - sint w"
    by (rule signed_take_bit_int_eq_self) (use lo hi assms in simp_all)
  finally show ?thesis by (simp add: np_abs_def)
qed

lemma sint_np_abs_min: "sint w = - 32768 \<Longrightarrow> sint (np_abs w) = - 32768"
proof -
  assume a: "sint w = - 32768"
  have "sint w = sint (- 32768 :: int16)" using a by simp
  then have "w = - 32768" by (simp only: signed_word_eqI)
  then show ?thesis by (simp add: np_abs_def)
qed

lemma sint_np_abs_le: "sint (np_abs w) \<le> \<bar>sint w\<bar>"
  by (cases "sint w = - 32768") (simp_all add: sint_np_abs sint_np_abs_min)

lemma sum_np_abs_le:
  "sum_list (map sint (map np_abs arr)) \<le> sum_list (map (\<lambda>w. \<bar>sint w\<bar>) arr)"
  by (induction arr) (simp_all add: add_mono sint_np_abs_le)

lemma sum_np_abs_eq:
  "\<forall>w \<in> set arr. sint w \<noteq> - 32768 \<Longrightarrow>
   sum_list (map sint (map np_abs arr)) = sum_list (map (\<lambda>w. \<bar>sint w\<bar>) arr)"
  by (induction arr) (simp_all add: sint_np_abs)

lemma np_mean_abs_le: "np_mean (map np_abs arr) \<le> mean_abs_amplitude arr"
  unfolding np_mean_def mean_abs_amplitude_def
  using sum_np_abs_le [of arr] by (simp add: divide_right_mono)

subsection \<open>The fallback classifier\<close>

text \<open>
  A frame whose mean absolute amplitude is at most the threshold is never speech, the
  empty frame is not speech, and a frame above the threshold is speech provided no sample
  is \<open>-32768\<close>.
\<close>

lemma is_speech_chunk_rms_quiet:
  assumes "frombuffer_int16 b = Inr arr" "mean_abs_amplitude arr \<le> 300"
  shows "is_speech_chunk_rms b = Inr False"
  using assms np_mean_abs_le [of arr] by (simp add: is_speech_chunk_rms_def THRESH_def)

lemma is_speech_chunk_rms_loud:
  assumes "frombuffer_int16 b = Inr arr" "arr \<noteq> []" "\<forall>w \<in> set arr. sint w \<noteq> - 32768"
    "mean_abs_amplitude arr > 300"
  shows "is_speech_chunk_rms b = Inr True"
  using assms sum_np_abs_eq [of arr]
  by (simp add: is_speech_chunk_rms_def THRESH_def np_mean_def mean_abs_amplitude_def)

lemma is_speech_chunk_rms_empty: "is_speech_chunk_rms [] = Inr False"
  by (simp add: is_speech_chunk_rms_def)

text \<open>
  Claim C7. The fallback classifier is meant to return true for a frame whose mean
  absolute amplitude is 400, false for one of mean absolute amplitude 100 and false for
  the empty frame. The block of 480 samples below (30 ms at 16 kHz) has one sample at
  \<open>-32768\<close>, one at 536 and 478 at 332: its mean absolute amplitude is exactly 400, yet
  the classifier returns false, because \<^verbatim>\<open>np.abs\<close> leaves \<open>-32768\<close> negative and the
  mean the program computes is 126464 / 480, below 300.
\<close>

theorem is_speech_chunk_rms_clipped_frame:
  "let arr = [- 32768, 536] @ replicate 478 332
   in frombuffer_int16 (tobytes arr) = Inr arr \<and> mean_abs_amplitude arr = 400 \<and>
      is_speech_chunk_rms (tobytes arr) = Inr False"
  by (simp add: Let_def frombuffer_tobytes is_speech_chunk_rms_def mean_abs_amplitude_def
       np_mean_def np_abs_def THRESH_def sum_list_replicate o_def)

subsection \<open>The capture loop\<close>

lemma loop_body_idle_quiet:
  "\<not> recording s \<Longrightarrow> is_speech_chunk env (frame ev) = Inr False \<Longrightarrow>
   loop_body env s ev = Inr (s, None)"
  by (simp add: loop_body_def)

lemma loop_body_eq:
  "loop_body env s ev =
     (case is_speech_chunk env (frame ev) of
        Inl e \<Rightarrow> Inl e
      | Inr sp \<Rightarrow>
          if \<not> recording s \<and> \<not> sp then Inr (s, None)
          else
            (case frombuffer_int16 (frame ev) of
               Inl e \<Rightarrow> Inl e
             | Inr arr \<Rightarrow>
                 if silence_elapsed (if sp then Some (epoch (at_voice ev)) else last_voice_ts s)
                      (epoch (at_check ev)) (silence_ms env)
                 then
                   (if \<not> can_write ev then Inl OSError
                    else if samplerate env \<le> 0 then Inl WaveError
                    else Inr (\<lparr> buf = [],
                        last_voice_ts = (if sp then Some (epoch (at_voice ev)) else last_voice_ts s),
                        recording = False \<rparr>,
                      Some (clip_path env ev,
                        \<lparr> nchannels = 1, sampwidth = 2, framerate = samplerate env,
                          frames = tobytes (concat ((if recording s then buf s else []) @ [arr])) \<rparr>)))
                 else Inr (\<lparr> buf = (if recording s then buf s else []) @ [arr],
                        last_voice_ts = (if sp then Some (epoch (at_voice ev)) else last_voice_ts s),
                        recording = True \<rparr>, None)))"
proof (cases "is_speech_chunk env (frame ev)")
  case (Inl e)
  then show ?thesis by (simp add: loop_body_def)
next
  case (Inr sp)
  show ?thesis
  proof (cases "frombuffer_int16 (frame ev)")
    case (Inl e)
    with Inr show ?thesis by (cases s) (simp add: loop_body_def)
  next
    case arr: (Inr arr)
    with Inr show ?thesis
      by (cases s) (simp add: loop_body_def Let_def write_wav_def np_concatenate_def clip_path_def)
  qed
qed

lemma main_loop_append:
  "main_loop env s (xs @ ys) =
     (case main_loop env s xs of
        Inl e \<Rightarrow> Inl e
      | Inr (s1, ws1) \<Rightarrow>
          (case main_loop env s1 ys of
             Inl e \<Rightarrow> Inl e
           | Inr (s2, ws2) \<Rightarrow> Inr (s2, ws1 @ ws2)))"
  by (induction xs arbitrary: s) (auto split: sum.splits prod.splits)

lemma main_loop_snoc_Inr:
  assumes "main_loop env s (es @ [e]) = Inr (s', ws)"
  obtains s1 ws1 w where "main_loop env s es = Inr (s1, ws1)" "loop_body env s1 e = Inr (s', w)"
    "ws = ws1 @ files_of w"
  using assms by (auto simp: main_loop_append split: sum.splits prod.splits)


lemma loop_body_Inr:
  assumes "loop_body env s ev = Inr (s', w)"
  obtains (discard) "\<not> recording s" "is_speech_chunk env (frame ev) = Inr False" "s' = s" "w = None"
  | (append) sp arr where "is_speech_chunk env (frame ev) = Inr sp" "recording s \<or> sp"
      "frombuffer_int16 (frame ev) = Inr arr"
      "recording s'" "w = None" "buf s' = (if recording s then buf s else []) @ [arr]"
  | (finalize) sp arr where "is_speech_chunk env (frame ev) = Inr sp" "recording s \<or> sp"
      "frombuffer_int16 (frame ev) = Inr arr"
      "\<not> recording s'" "buf s' = []"
      "w = Some (clip_path env ev,
             \<lparr> nchannels = 1, sampwidth = 2, framerate = samplerate env,
               frames = tobytes (concat ((if recording s then buf s else []) @ [arr])) \<rparr>)"
  using assms unfolding loop_body_eq
  by (auto split: sum.splits if_splits)

lemma main_loop_episodes:
  assumes "\<not> recording s" "main_loop env s es = Inr (s', ws)"
  shows "(recording s' \<longrightarrow>
           (\<exists>pre ep sp. es = pre @ ep \<and> ep \<noteq> [] \<and> main_loop env s pre = Inr (sp, ws) \<and>
              \<not> recording sp \<and> is_speech_chunk env (frame (hd ep)) = Inr True \<and>
              main_loop env sp ep = Inr (s', []) \<and>
              map (\<lambda>x. frombuffer_int16 (frame x)) ep = map Inr (buf s'))) \<and>
         (\<forall>w \<in> set ws.
           \<exists>pre mid ef post sp wp sq sr arrs. es = pre @ mid @ ef # post \<and>
              main_loop env s pre = Inr (sp, wp) \<and> \<not> recording sp \<and>
              is_speech_chunk env (frame (hd (mid @ [ef]))) = Inr True \<and>
              main_loop env sp mid = Inr (sq, []) \<and>
              loop_body env sq ef = Inr (sr, Some w) \<and> \<not> recording sr \<and> buf sr = [] \<and>
              map (\<lambda>x. frombuffer_int16 (frame x)) (mid @ [ef]) = map Inr arrs \<and>
              w = (clip_path env ef,
                   \<lparr> nchannels = 1, sampwidth = 2, framerate = samplerate env,
                     frames = tobytes (concat arrs) \<rparr>))"
  (is "(recording s' \<longrightarrow> (\<exists>pre ep sp. ?Open es s' ws pre ep sp)) \<and>
       (\<forall>w \<in> set ws. \<exists>pre mid ef post sp wp sq sr arrs. ?Fin es w pre mid ef post sp wp sq sr arrs)")
  using assms(2)
proof (induction es arbitrary: s' ws rule: rev_induct)
  case Nil
  then show ?case using assms(1) by simp
next
  case (snoc e es)
  from snoc.prems obtain s1 ws1 w where
    run1: "main_loop env s es = Inr (s1, ws1)" and body: "loop_body env s1 e = Inr (s', w)"
    and ws: "ws = ws1 @ files_of w"
    by (rule main_loop_snoc_Inr)
  note IH = snoc.IH [OF run1]
  have IH1: "\<exists>pre ep sp. ?Open es s1 ws1 pre ep sp" if "recording s1"
    using IH that by (rule conjunct1 [THEN mp])
  have IH2: "\<exists>pre mid ef post sp wp sq sr arrs. ?Fin es w0 pre mid ef post sp wp sq sr arrs"
    if "w0 \<in> set ws1" for w0
    using IH [THEN conjunct2] that by (rule bspec)
  have old: "\<exists>pre mid ef post sp wp sq sr arrs. ?Fin (es @ [e]) w0 pre mid ef post sp wp sq sr arrs"
    if "w0 \<in> set ws1" for w0
  proof -
    from IH2 [OF that] obtain pre mid ef post sp wp sq sr arrs where
      r: "?Fin es w0 pre mid ef post sp wp sq sr arrs"
      by (elim exE)
    then have "?Fin (es @ [e]) w0 pre mid ef (post @ [e]) sp wp sq sr arrs" by simp
    then show ?thesis by (intro exI)
  qed
  from body show ?case
  proof (cases rule: loop_body_Inr)
    case discard
    have a: "\<not> recording s'" using discard(1,3) by simp
    have b: "set ws = set ws1" using ws discard(4) by simp
    show ?thesis
    proof (intro conjI impI ballI)
      assume "recording s'"
      with a show "\<exists>pre ep sp. ?Open (es @ [e]) s' ws pre ep sp" by simp
    next
      fix w0 assume "w0 \<in> set ws"
      then have "w0 \<in> set ws1" using b by simp
      then show "\<exists>pre mid ef post sp wp sq sr arrs. ?Fin (es @ [e]) w0 pre mid ef post sp wp sq sr arrs"
        by (rule old)
    qed
  next
    case (append sp arr)
    have wseq: "ws = ws1" using ws append(5) by simp
    have new: "\<exists>pre ep sp0. ?Open (es @ [e]) s' ws pre ep sp0"
    proof (cases "recording s1")
      case True
      from IH1 [OF True] obtain pre ep sp0 where d: "?Open es s1 ws1 pre ep sp0"
        by (elim exE)
      have 2: "main_loop env sp0 (ep @ [e]) = Inr (s', [])"
        using d body append(5) by (simp add: main_loop_append)
      have 3: "map (\<lambda>x. frombuffer_int16 (frame x)) (ep @ [e]) = map Inr (buf s')"
        using d append(3,6) True by simp
      have "?Open (es @ [e]) s' ws pre (ep @ [e]) sp0"
        using d 2 3 wseq by simp
      then show ?thesis by (intro exI)
    next
      case False
      with append have sp: "sp" by simp
      have 2: "main_loop env s1 [e] = Inr (s', [])" using body append(5) by simp
      have 3: "map (\<lambda>x. frombuffer_int16 (frame x)) [e] = map Inr (buf s')"
        using append(3,6) False by simp
      have 4: "is_speech_chunk env (frame e) = Inr True" using append(1) sp by simp
      have "?Open (es @ [e]) s' ws es [e] s1"
        using 2 3 4 run1 wseq False by simp
      then show ?thesis by (intro exI)
    qed
    show ?thesis
    proof (intro conjI impI ballI)
      show "\<exists>pre ep sp. ?Open (es @ [e]) s' ws pre ep sp" by (rule new)
    next
      fix w0 assume "w0 \<in> set ws"
      then have "w0 \<in> set ws1" using wseq by simp
      then show "\<exists>pre mid ef post sp wp sq sr arrs. ?Fin (es @ [e]) w0 pre mid ef post sp wp sq sr arrs"
        by (rule old)
    qed
  next
    case (finalize sp arr)
    let ?w = "(clip_path env e,
             \<lparr> nchannels = 1, sampwidth = 2, framerate = samplerate env,
               frames = tobytes (concat ((if recording s1 then buf s1 else []) @ [arr])) \<rparr>)"
    have body': "loop_body env s1 e = Inr (s', Some ?w)" using body finalize(6) by simp
    have new: "\<exists>pre mid ef post sp wp sq sr arrs. ?Fin (es @ [e]) ?w pre mid ef post sp wp sq sr arrs"
    proof (cases "recording s1")
      case True
      from IH1 [OF True] obtain pre ep sp0 where d: "?Open es s1 ws1 pre ep sp0"
        by (elim exE)
      have 3: "map (\<lambda>x. frombuffer_int16 (frame x)) (ep @ [e]) = map Inr (buf s1 @ [arr])"
        using d finalize(3) by simp
      have 4: "is_speech_chunk env (frame (hd (ep @ [e]))) = Inr True"
        using d by simp
      have "?Fin (es @ [e]) ?w pre ep e [] sp0 ws1 s1 s' (buf s1 @ [arr])"
        using d 3 4 body' True finalize(4,5) by simp
      then show ?thesis by (intro exI)
    next
      case False
      with finalize have sp: "sp" by simp
      have 3: "map (\<lambda>x. frombuffer_int16 (frame x)) ([] @ [e]) = map Inr [arr]"
        using finalize(3) by simp
      have 4: "is_speech_chunk env (frame (hd ([] @ [e]))) = Inr True" using finalize(1) sp by simp
      have "?Fin (es @ [e]) ?w es [] e [] s1 ws1 s1 s' [arr]"
        using 3 4 body' run1 False finalize(4,5) by simp
      then show ?thesis by (intro exI)
    qed
    have wsset: "set ws = insert ?w (set ws1)" using ws finalize(6) by simp
    show ?thesis
    proof (intro conjI impI ballI)
      assume "recording s'"
      with finalize(4) show "\<exists>pre ep sp. ?Open (es @ [e]) s' ws pre ep sp" by simp
    next
      fix w0 assume "w0 \<in> set ws"
      then consider "w0 = ?w" | "w0 \<in> set ws1" using wsset by auto
      then show "\<exists>pre mid ef post sp wp sq sr arrs. ?Fin (es @ [e]) w0 pre mid ef post sp wp sq sr arrs"
      proof cases
        case 1
        then show ?thesis using new by simp
      next
        case 2
        then show ?thesis by (rule old)
      qed
    qed
  qed
qed

lemma main_loop_all_quiet:
  assumes "\<not> recording s" "\<forall>e \<in> set es. is_speech_chunk env (frame e) = Inr False"
  shows "main_loop env s es = Inr (s, [])"
  using assms by (induction es) (simp_all add: loop_body_idle_quiet)

subsection \<open>The concrete runs\<close>

lemma speech_block_is_speech: "is_speech_chunk_rms speech_block = Inr True"
  by (simp add: speech_block_def speech_samples_def is_speech_chunk_rms_def frombuffer_tobytes
       np_mean_def np_abs_def THRESH_def sum_list_replicate)

lemma quiet_block_is_quiet: "is_speech_chunk_rms quiet_block = Inr False"
  by (simp add: quiet_block_def quiet_samples_def is_speech_chunk_rms_def frombuffer_tobytes
       np_mean_def np_abs_def THRESH_def sum_list_replicate)

lemma frombuffer_speech_block: "frombuffer_int16 speech_block = Inr speech_samples"
  by (simp add: speech_block_def frombuffer_tobytes)

lemma frombuffer_quiet_block: "frombuffer_int16 quiet_block = Inr quiet_samples"
  by (simp add: quiet_block_def frombuffer_tobytes)

lemmas demo_simps =
  loop_body_eq demo_env_def block_at_def clock_at_def float64_of_ms_def silence_elapsed_def
  initial_state_def
  speech_block_is_speech quiet_block_is_quiet frombuffer_speech_block frombuffer_quiet_block
  clip_path_def os_path_join_def strftime_def dec2_def dec4_def digit_char_def

lemma scenario_first_three:
  "main_loop (demo_env 150) initial_state (take 3 scenario) =
     Inr (\<lparr> buf = [speech_samples, speech_samples, quiet_samples],
            last_voice_ts = Some (epoch (clock_at 60)), recording = True \<rparr>, [])"
  by (simp add: scenario_def demo_simps)

lemma scenario_first_six:
  "main_loop (demo_env 150) initial_state (take 6 scenario) =
     Inr (\<lparr> buf = [speech_samples, speech_samples, quiet_samples, quiet_samples, quiet_samples,
                    quiet_samples],
            last_voice_ts = Some (epoch (clock_at 60)), recording = True \<rparr>, [])"
  by (simp add: scenario_def demo_simps)

lemma scenario_full:
  "main_loop (demo_env 150) initial_state scenario =
     Inr (\<lparr> buf = [], last_voice_ts = Some (epoch (clock_at 60)), recording = False \<rparr>,
          [(''/mnt/wodehouse_data/shared/audio/clip_20231114_221320.wav'',
            \<lparr> nchannels = 1, sampwidth = 2, framerate = 16000,
              frames = tobytes (concat [speech_samples, speech_samples, quiet_samples, quiet_samples,
                 quiet_samples, quiet_samples, quiet_samples]) \<rparr>)])"
  by (simp add: scenario_def demo_simps)

text \<open>
  The 30 ms scenario on any clock. If the first six iterations find the timeout not
  exceeded when they check it and the seventh finds it exceeded, the loop is Recording
  with six blocks after the sixth block, writes a clip of the first seven blocks on the
  seventh and is Idle again, and the last four blocks, consumed in Idle, change nothing.
\<close>

lemma timed_scenario_run:
  assumes "epoch (v 1) \<noteq> 0" and "epoch (v 2) \<noteq> 0"
    and "(epoch (c 1) - epoch (v 1)) * 1000 \<le> 150"
    and "(epoch (c 2) - epoch (v 2)) * 1000 \<le> 150"
    and "(epoch (c 3) - epoch (v 2)) * 1000 \<le> 150"
    and "(epoch (c 4) - epoch (v 2)) * 1000 \<le> 150"
    and "(epoch (c 5) - epoch (v 2)) * 1000 \<le> 150"
    and "(epoch (c 6) - epoch (v 2)) * 1000 \<le> 150"
    and "(epoch (c 7) - epoch (v 2)) * 1000 > 150"
  shows "main_loop (demo_env 150) initial_state (take 6 (timed_scenario v c n)) =
           Inr (\<lparr> buf = [speech_samples, speech_samples, quiet_samples, quiet_samples,
                          quiet_samples, quiet_samples],
                  last_voice_ts = Some (epoch (v 2)), recording = True \<rparr>, []) \<and>
         main_loop (demo_env 150) initial_state (take 7 (timed_scenario v c n)) =
           Inr (\<lparr> buf = [], last_voice_ts = Some (epoch (v 2)), recording = False \<rparr>,
                [(clip_path (demo_env 150) (timed_scenario v c n ! 6),
                  \<lparr> nchannels = 1, sampwidth = 2, framerate = 16000,
                    frames = tobytes (concat [speech_samples, speech_samples, quiet_samples,
                       quiet_samples, quiet_samples, quiet_samples, quiet_samples]) \<rparr>)]) \<and>
         main_loop (demo_env 150)
             \<lparr> buf = [], last_voice_ts = Some (epoch (v 2)), recording = False \<rparr>
             (drop 7 (timed_scenario v c n)) =
           Inr (\<lparr> buf = [], last_voice_ts = Some (epoch (v 2)), recording = False \<rparr>, []) \<and>
         main_loop (demo_env 150) initial_state (timed_scenario v c n) =
           main_loop (demo_env 150) initial_state (take 7 (timed_scenario v c n)) \<and>
         length (timed_scenario v c n) = 11 \<and> length (drop 7 (timed_scenario v c n)) = 4"
  using assms
  by (simp add: timed_scenario_def timed_block_def loop_body_eq demo_env_def silence_elapsed_def
        initial_state_def speech_block_is_speech quiet_block_is_quiet frombuffer_speech_block
        frombuffer_quiet_block)


text \<open>
  The timing condition holds whenever every iteration starts when its block is delivered,
  one block per 30 ms, and reads the clock for the check of line 155 later than for line
  151, by less than the 30 ms of a block.
\<close>

lemma timed_scenario_delayed:
  assumes "0 < t0" and "0 \<le> a" and "a < b" and "b - a \<le> 3 / 100"
  shows "main_loop (demo_env 150) initial_state
           (take 7 (timed_scenario (delayed_clock t0 a lt) (delayed_clock t0 b lt) (delayed_clock t0 b lt))) =
           Inr (\<lparr> buf = [], last_voice_ts = Some (t0 + 6 / 100 + a), recording = False \<rparr>,
                [(clip_path (demo_env 150)
                    (timed_block quiet_block (delayed_clock t0 a lt 7) (delayed_clock t0 b lt 7)
                       (delayed_clock t0 b lt 7)),
                  \<lparr> nchannels = 1, sampwidth = 2, framerate = 16000,
                    frames = tobytes (concat [speech_samples, speech_samples, quiet_samples,
                       quiet_samples, quiet_samples, quiet_samples, quiet_samples]) \<rparr>)])"
proof -
  let ?v = "delayed_clock t0 a lt" and ?c = "delayed_clock t0 b lt"
  have "epoch (?v 1) \<noteq> 0" "epoch (?v 2) \<noteq> 0"
    "(epoch (?c 1) - epoch (?v 1)) * 1000 \<le> 150"
    "(epoch (?c 2) - epoch (?v 2)) * 1000 \<le> 150"
    "(epoch (?c 3) - epoch (?v 2)) * 1000 \<le> 150"
    "(epoch (?c 4) - epoch (?v 2)) * 1000 \<le> 150"
    "(epoch (?c 5) - epoch (?v 2)) * 1000 \<le> 150"
    "(epoch (?c 6) - epoch (?v 2)) * 1000 \<le> 150"
    "(epoch (?c 7) - epoch (?v 2)) * 1000 > 150"
    using assms by (simp_all add: delayed_clock_def)
  from timed_scenario_run [of ?v ?c ?c, OF this]
  show ?thesis by (simp add: timed_scenario_def delayed_clock_def)
qed

lemma scenario_boundary_run:
  "main_loop (demo_env 150) initial_state scenario_boundary =
     Inr (\<lparr> buf = [], last_voice_ts = Some (epoch (clock_at 900)), recording = False \<rparr>,
          [(''/mnt/wodehouse_data/shared/audio/clip_20231114_221321.wav'',
            \<lparr> nchannels = 1, sampwidth = 2, framerate = 16000,
              frames = tobytes (concat [speech_samples, quiet_samples, quiet_samples,
                 quiet_samples, quiet_samples, quiet_samples, quiet_samples]) \<rparr>)])"
  by (simp add: scenario_boundary_def demo_simps)

subsection \<open>Leaving Idle\<close>

text \<open>
  Claim C1. Take any run of the loop from an Idle state. If no block of the run is
  classified speech, the state is unchanged and nothing is written; in any Idle state
  reached, a block classified non-speech leaves the state as it is (the block is not
  buffered); and if the run ends in Recording, then the utterance being built was opened
  by a block \<open>e0\<close> classified speech that was consumed in Idle, the buffer holds the samples
  of \<open>e0\<close> first and then those of every later block, and no file was written since.
\<close>

theorem idle_left_only_on_speech:
  assumes "\<not> recording s" and "main_loop env s es = Inr (s', ws)"
  shows "((\<forall>e \<in> set es. is_speech_chunk env (frame e) = Inr False) \<longrightarrow> s' = s \<and> ws = []) \<and>
         (\<not> recording s' \<longrightarrow>
            (\<forall>e. is_speech_chunk env (frame e) = Inr False \<longrightarrow> loop_body env s' e = Inr (s', None))) \<and>
         (recording s' \<longrightarrow>
            (\<exists>pre e0 post sp. es = pre @ e0 # post \<and> main_loop env s pre = Inr (sp, ws) \<and>
               \<not> recording sp \<and> is_speech_chunk env (frame e0) = Inr True \<and>
               main_loop env sp (e0 # post) = Inr (s', []) \<and>
               map (\<lambda>x. frombuffer_int16 (frame x)) (e0 # post) = map Inr (buf s')))"
proof (intro conjI impI allI)
  assume "\<forall>e \<in> set es. is_speech_chunk env (frame e) = Inr False"
  from main_loop_all_quiet [OF assms(1) this] assms(2) show "s' = s" and "ws = []" by simp_all
next
  fix e :: event assume "\<not> recording s'" "is_speech_chunk env (frame e) = Inr False"
  then show "loop_body env s' e = Inr (s', None)" by (rule loop_body_idle_quiet)
next
  assume "recording s'"
  with main_loop_episodes [OF assms] obtain pre ep sp where
    d: "es = pre @ ep" "ep \<noteq> []" "main_loop env s pre = Inr (sp, ws)" "\<not> recording sp"
       "is_speech_chunk env (frame (hd ep)) = Inr True" "main_loop env sp ep = Inr (s', [])"
       "map (\<lambda>x. frombuffer_int16 (frame x)) ep = map Inr (buf s')"
    by blast
  from d(2) obtain e0 post where ep: "ep = e0 # post" by (cases ep) auto
  have "es = pre @ e0 # post \<and> main_loop env s pre = Inr (sp, ws) \<and>
               \<not> recording sp \<and> is_speech_chunk env (frame e0) = Inr True \<and>
               main_loop env sp (e0 # post) = Inr (s', []) \<and>
               map (\<lambda>x. frombuffer_int16 (frame x)) (e0 # post) = map Inr (buf s')"
    using d ep by simp
  then show "\<exists>pre e0 post sp. es = pre @ e0 # post \<and> main_loop env s pre = Inr (sp, ws) \<and>
               \<not> recording sp \<and> is_speech_chunk env (frame e0) = Inr True \<and>
               main_loop env sp (e0 # post) = Inr (s', []) \<and>
               map (\<lambda>x. frombuffer_int16 (frame x)) (e0 # post) = map Inr (buf s')"
    by (intro exI)
qed

theorem idle_left_only_on_speech_witness:
  "\<not> recording initial_state \<and>
   main_loop (demo_env 150) initial_state (take 3 scenario) =
     Inr (\<lparr> buf = [speech_samples, speech_samples, quiet_samples],
            last_voice_ts = Some (epoch (clock_at 60)), recording = True \<rparr>, []) \<and>
   (\<exists>pre e0 post sp. take 3 scenario = pre @ e0 # post \<and>
      main_loop (demo_env 150) initial_state pre = Inr (sp, []) \<and>
      \<not> recording sp \<and> is_speech_chunk (demo_env 150) (frame e0) = Inr True \<and>
      main_loop (demo_env 150) sp (e0 # post) =
        Inr (\<lparr> buf = [speech_samples, speech_samples, quiet_samples],
               last_voice_ts = Some (epoch (clock_at 60)), recording = True \<rparr>, []) \<and>
      map (\<lambda>x. frombuffer_int16 (frame x)) (e0 # post) =
        map Inr [speech_samples, speech_samples, quiet_samples])"
proof -
  have h1: "\<not> recording initial_state" by (simp add: initial_state_def)
  note h2 = scenario_first_three
  from idle_left_only_on_speech [OF h1 h2] h1 h2 show ?thesis by simp
qed

subsection \<open>The 30 ms scenario\<close>



subsection \<open>What a clip holds\<close>

text \<open>
  Claim C3. Every file written in a run from an Idle state belongs to one episode
  \<open>mid @ [ef]\<close> of consecutive blocks of the run: the episode starts in Idle with a block
  classified speech, no file is written during \<open>mid\<close>, and the iteration that consumes
  \<open>ef\<close> writes the file and returns to Idle with an empty buffer. The file holds the
  samples of every block of the episode, in order and untrimmed: one array per block,
  \<open>length mid + 1\<close> of them.
\<close>

theorem clip_holds_every_buffered_frame:
  assumes "\<not> recording s" and "main_loop env s es = Inr (s', ws)" and "(p, f) \<in> set ws"
  shows "\<exists>pre mid ef post sp wp sq sr arrs.
           es = pre @ mid @ ef # post \<and>
           main_loop env s pre = Inr (sp, wp) \<and> \<not> recording sp \<and>
           is_speech_chunk env (frame (hd (mid @ [ef]))) = Inr True \<and>
           main_loop env sp mid = Inr (sq, []) \<and>
           loop_body env sq ef = Inr (sr, Some (p, f)) \<and> \<not> recording sr \<and> buf sr = [] \<and>
           map (\<lambda>x. frombuffer_int16 (frame x)) (mid @ [ef]) = map Inr arrs \<and>
           length arrs = length mid + 1 \<and>
           frames f = tobytes (concat arrs)"
proof -
  from main_loop_episodes [OF assms(1,2)] assms(3)
  obtain pre mid ef post sp wp sq sr arrs where
    d: "es = pre @ mid @ ef # post" "main_loop env s pre = Inr (sp, wp)" "\<not> recording sp"
       "is_speech_chunk env (frame (hd (mid @ [ef]))) = Inr True"
       "main_loop env sp mid = Inr (sq, [])"
       "loop_body env sq ef = Inr (sr, Some (p, f))" "\<not> recording sr" "buf sr = []"
       "map (\<lambda>x. frombuffer_int16 (frame x)) (mid @ [ef]) = map Inr arrs"
       "(p, f) = (clip_path env ef,
                   \<lparr> nchannels = 1, sampwidth = 2, framerate = samplerate env,
                     frames = tobytes (concat arrs) \<rparr>)"
    by blast
  have len: "length arrs = length mid + 1"
    using arg_cong [OF d(9), of length] by simp
  from d(10) have fr: "frames f = tobytes (concat arrs)" by simp
  have "es = pre @ mid @ ef # post \<and>
           main_loop env s pre = Inr (sp, wp) \<and> \<not> recording sp \<and>
           is_speech_chunk env (frame (hd (mid @ [ef]))) = Inr True \<and>
           main_loop env sp mid = Inr (sq, []) \<and>
           loop_body env sq ef = Inr (sr, Some (p, f)) \<and> \<not> recording sr \<and> buf sr = [] \<and>
           map (\<lambda>x. frombuffer_int16 (frame x)) (mid @ [ef]) = map Inr arrs \<and>
           length arrs = length mid + 1 \<and>
           frames f = tobytes (concat arrs)"
    using d(1-9) len fr by simp
  then show ?thesis by (intro exI)
qed

theorem clip_holds_every_buffered_frame_witness:
  "\<not> recording initial_state \<and>
   main_loop (demo_env 150) initial_state scenario =
     Inr (\<lparr> buf = [], last_voice_ts = Some (epoch (clock_at 60)), recording = False \<rparr>,
          [(''/mnt/wodehouse_data/shared/audio/clip_20231114_221320.wav'',
            \<lparr> nchannels = 1, sampwidth = 2, framerate = 16000,
              frames = tobytes (concat [speech_samples, speech_samples, quiet_samples, quiet_samples,
                 quiet_samples, quiet_samples, quiet_samples]) \<rparr>)]) \<and>
   (\<exists>pre mid ef post sp wp sq sr arrs.
      scenario = pre @ mid @ ef # post \<and>
      main_loop (demo_env 150) initial_state pre = Inr (sp, wp) \<and> \<not> recording sp \<and>
      is_speech_chunk (demo_env 150) (frame (hd (mid @ [ef]))) = Inr True \<and>
      main_loop (demo_env 150) sp mid = Inr (sq, []) \<and>
      loop_body (demo_env 150) sq ef =
        Inr (sr, Some (''/mnt/wodehouse_data/shared/audio/clip_20231114_221320.wav'',
            \<lparr> nchannels = 1, sampwidth = 2, framerate = 16000,
              frames = tobytes (concat [speech_samples, speech_samples, quiet_samples, quiet_samples,
                 quiet_samples, quiet_samples, quiet_samples]) \<rparr>)) \<and>
      \<not> recording sr \<and> buf sr = [] \<and>
      map (\<lambda>x. frombuffer_int16 (frame x)) (mid @ [ef]) = map Inr arrs \<and>
      length arrs = length mid + 1 \<and>
      tobytes (concat [speech_samples, speech_samples, quiet_samples, quiet_samples,
                 quiet_samples, quiet_samples, quiet_samples]) = tobytes (concat arrs))"
proof -
  have h1: "\<not> recording initial_state" by (simp add: initial_state_def)
  note h2 = scenario_full
  have h3: "(''/mnt/wodehouse_data/shared/audio/clip_20231114_221320.wav'',
            \<lparr> nchannels = 1, sampwidth = 2, framerate = 16000,
              frames = tobytes (concat [speech_samples, speech_samples, quiet_samples, quiet_samples,
                 quiet_samples, quiet_samples, quiet_samples]) \<rparr>)
        \<in> set [(''/mnt/wodehouse_data/shared/audio/clip_20231114_221320.wav'',
            \<lparr> nchannels = 1, sampwidth = 2, framerate = 16000,
              frames = tobytes (concat [speech_samples, speech_samples, quiet_samples, quiet_samples,
                 quiet_samples, quiet_samples, quiet_samples]) \<rparr>)]"
    by simp
  from clip_holds_every_buffered_frame [OF h1 h2 h3] h1 h2 show ?thesis by simp
qed

subsection \<open>The name of a clip\<close>

text \<open>
  Claim C6, as stated, fails: the name does not encode the time of the block that opened
  the utterance. In the run below the utterance opens at 22:13:20.900 and is finalized at
  22:13:21.080; the file is named after the second 22:13:21, while the clock read for the
  opening block formats as 22:13:20.
\<close>

theorem clip_name_is_not_capture_start:
  "main_loop (demo_env 150) initial_state scenario_boundary =
     Inr (\<lparr> buf = [], last_voice_ts = Some (epoch (clock_at 900)), recording = False \<rparr>,
          [(''/mnt/wodehouse_data/shared/audio/clip_20231114_221321.wav'',
            \<lparr> nchannels = 1, sampwidth = 2, framerate = 16000,
              frames = tobytes (concat [speech_samples, quiet_samples, quiet_samples,
                 quiet_samples, quiet_samples, quiet_samples, quiet_samples]) \<rparr>)]) \<and>
   os_path_join (AUDIO_DIR (demo_env 150))
       (''clip_'' @ strftime (localtime (at_voice (hd scenario_boundary))) @ ''.wav'') =
     ''/mnt/wodehouse_data/shared/audio/clip_20231114_221320.wav'' \<and>
   ''/mnt/wodehouse_data/shared/audio/clip_20231114_221321.wav'' \<noteq>
     ''/mnt/wodehouse_data/shared/audio/clip_20231114_221320.wav''"
  using scenario_boundary_run by (simp add: scenario_boundary_def demo_simps)

text \<open>
  Claim C6, amended. Every file written in a run from an Idle state is named
  \<^verbatim>\<open>clip_<time>.wav\<close> in the output directory, where the time is the clock as read, to
  the second, by the iteration that finalizes the utterance (the one consuming the last
  block \<open>ef\<close> of its episode).
\<close>

theorem clip_named_by_finalization_time:
  assumes "\<not> recording s" and "main_loop env s es = Inr (s', ws)" and "(p, f) \<in> set ws"
  shows "\<exists>pre mid ef post sp wp sq sr.
           es = pre @ mid @ ef # post \<and>
           main_loop env s pre = Inr (sp, wp) \<and> \<not> recording sp \<and>
           is_speech_chunk env (frame (hd (mid @ [ef]))) = Inr True \<and>
           main_loop env sp mid = Inr (sq, []) \<and>
           loop_body env sq ef = Inr (sr, Some (p, f)) \<and>
           p = os_path_join (AUDIO_DIR env)
                 (''clip_'' @ strftime (localtime (at_name ef)) @ ''.wav'')"
proof -
  from main_loop_episodes [OF assms(1,2)] assms(3)
  obtain pre mid ef post sp wp sq sr arrs where
    d: "es = pre @ mid @ ef # post" "main_loop env s pre = Inr (sp, wp)" "\<not> recording sp"
       "is_speech_chunk env (frame (hd (mid @ [ef]))) = Inr True"
       "main_loop env sp mid = Inr (sq, [])"
       "loop_body env sq ef = Inr (sr, Some (p, f))"
       "(p, f) = (clip_path env ef,
                   \<lparr> nchannels = 1, sampwidth = 2, framerate = samplerate env,
                     frames = tobytes (concat arrs) \<rparr>)"
    by blast
  from d(7) have "p = os_path_join (AUDIO_DIR env)
                 (''clip_'' @ strftime (localtime (at_name ef)) @ ''.wav'')"
    by (simp add: clip_path_def)
  with d(1-6) have "es = pre @ mid @ ef # post \<and>
           main_loop env s pre = Inr (sp, wp) \<and> \<not> recording sp \<and>
           is_speech_chunk env (frame (hd (mid @ [ef]))) = Inr True \<and>
           main_loop env sp mid = Inr (sq, []) \<and>
           loop_body env sq ef = Inr (sr, Some (p, f)) \<and>
           p = os_path_join (AUDIO_DIR env)
                 (''clip_'' @ strftime (localtime (at_name ef)) @ ''.wav'')"
    by simp
  then show ?thesis by (intro exI)
qed

theorem clip_named_by_finalization_time_witness:
  "\<not> recording initial_state \<and>
   main_loop (demo_env 150) initial_state scenario_boundary =
     Inr (\<lparr> buf = [], last_voice_ts = Some (epoch (clock_at 900)), recording = False \<rparr>,
          [(''/mnt/wodehouse_data/shared/audio/clip_20231114_221321.wav'',
            \<lparr> nchannels = 1, sampwidth = 2, framerate = 16000,
              frames = tobytes (concat [speech_samples, quiet_samples, quiet_samples,
                 quiet_samples, quiet_samples, quiet_samples, quiet_samples]) \<rparr>)]) \<and>
   (\<exists>pre mid ef post sp wp sq sr.
      scenario_boundary = pre @ mid @ ef # post \<and>
      main_loop (demo_env 150) initial_state pre = Inr (sp, wp) \<and> \<not> recording sp \<and>
      is_speech_chunk (demo_env 150) (frame (hd (mid @ [ef]))) = Inr True \<and>
      main_loop (demo_env 150) sp mid = Inr (sq, []) \<and>
      loop_body (demo_env 150) sq ef =
        Inr (sr, Some (''/mnt/wodehouse_data/shared/audio/clip_20231114_221321.wav'',
            \<lparr> nchannels = 1, sampwidth = 2, framerate = 16000,
              frames = tobytes (concat [speech_samples, quiet_samples, quiet_samples,
                 quiet_samples, quiet_samples, quiet_samples, quiet_samples]) \<rparr>)) \<and>
      ''/mnt/wodehouse_data/shared/audio/clip_20231114_221321.wav'' =
        os_path_join (AUDIO_DIR (demo_env 150))
          (''clip_'' @ strftime (localtime (at_name ef)) @ ''.wav''))"
proof -
  have h1: "\<not> recording initial_state" by (simp add: initial_state_def)
  note h2 = scenario_boundary_run
  have h3: "(''/mnt/wodehouse_data/shared/audio/clip_20231114_221321.wav'',
            \<lparr> nchannels = 1, sampwidth = 2, framerate = 16000,
              frames = tobytes (concat [speech_samples, quiet_samples, quiet_samples,
                 quiet_samples, quiet_samples, quiet_samples, quiet_samples]) \<rparr>)
        \<in> set [(''/mnt/wodehouse_data/shared/audio/clip_20231114_221321.wav'',
            \<lparr> nchannels = 1, sampwidth = 2, framerate = 16000,
              frames = tobytes (concat [speech_samples, quiet_samples, quiet_samples,
                 quiet_samples, quiet_samples, quiet_samples, quiet_samples]) \<rparr>)]"
    by simp
  from clip_named_by_finalization_time [OF h1 h2 h3] h1 h2 show ?thesis by simp
qed

subsection \<open>The header of a clip\<close>

lemma py_lower_example: "py_lower ''USB Microphone'' = ''usb microphone''"
  by (simp add: py_lower_def lower_char_def)

lemma demo_platform_fields:
  "query_devices demo_platform = demo_devices"
  "check_input_settings demo_platform = (\<lambda>idx. idx \<in> {1, 2, 3})"
  "HAVE_VAD demo_platform = False"
  "getenv_AUDIO_DIR demo_platform = None"
  by (simp_all add: demo_platform_def)

lemma pick_demo:
  "pick_input_device demo_devices (check_input_settings demo_platform) (Some (PStr ''usb'')) = Inr 2"
  by (simp add: pick_input_device_def demo_devices_def py_isdigit_def py_lower_def lower_char_def)

lemma main_start_demo:
  "main_start demo_platform (parse_args demo_cmdline) =
     Inr (\<lparr> stream_samplerate = 16000, stream_blocksize = 480, stream_channels = 1,
            stream_device = 2 \<rparr>, demo_env 150)"
proof -
  have p: "pick_input_device (query_devices demo_platform) (check_input_settings demo_platform)
             (map_option PStr (arg_device (parse_args demo_cmdline))) = Inr 2"
    using pick_demo by (simp add: demo_platform_fields(1) parse_args_def demo_cmdline_def)
  show ?thesis
    unfolding main_start_def p
    by (simp add: demo_platform_fields parse_args_def demo_cmdline_def with_default_def
        demo_devices_def main_samplerate_def main_block_size_def py_int_of_float_def
        build_vad_fn_def demo_env_def)
qed

lemma py_int_of_float_of_int: "py_int_of_float (real_of_int i) = i"
  by (simp add: py_int_of_float_def)

lemma main_samplerate_given:
  "arg_samplerate a \<noteq> 0 \<Longrightarrow> main_samplerate a dev_info = arg_samplerate a"
  by (simp add: main_samplerate_def py_int_of_float_of_int Let_def)

lemma main_start_Inr:
  assumes "main_start pf a = Inr (st, env)"
  shows "\<exists>dev_info. samplerate env = main_samplerate a dev_info \<and>
           stream_samplerate st = samplerate env \<and> stream_channels st = 1"
  using assms unfolding main_start_def
  by (auto simp: Let_def split: sum.splits if_splits)

lemma main_loop_written_header:
  assumes "\<not> recording s" "main_loop env s es = Inr (s', ws)" "(p, f) \<in> set ws"
  shows "nchannels f = 1 \<and> sampwidth f = 2 \<and> framerate f = samplerate env"
proof -
  from main_loop_episodes [OF assms(1,2)] assms(3)
  obtain ef arrs where
    "(p, f) = (clip_path env ef,
                   \<lparr> nchannels = 1, sampwidth = 2, framerate = samplerate env,
                     frames = tobytes (concat arrs) \<rparr>)"
    by blast
  then show ?thesis by simp
qed

text \<open>
  Claim C8. Let \<^verbatim>\<open>main\<close> start with a configured sample rate of 8000, 16000 or 44100 Hz.
  Every file written by the capture loop then has a header with one channel (the channel
  count of the capture stream), a sample width of two bytes, that is 16 bits, and the
  frame rate of the capture stream, which is the configured rate; and \<^verbatim>\<open>write_wav\<close> at
  that rate writes exactly this header on any path it can open.
\<close>

theorem clip_header_matches_capture:
  assumes "main_start pf a = Inr (st, env)"
    and "arg_samplerate a \<in> {8000, 16000, 44100}"
    and "main_loop env initial_state es = Inr (s', ws)"
    and "(p, f) \<in> set ws"
  shows "nchannels f = 1 \<and> stream_channels st = nchannels f \<and> 8 * sampwidth f = 16 \<and>
         framerate f = arg_samplerate a \<and> stream_samplerate st = framerate f \<and>
         write_wav True path audio (arg_samplerate a) =
           Inr (path, \<lparr> nchannels = 1, sampwidth = 2, framerate = arg_samplerate a,
                        frames = tobytes audio \<rparr>)"
proof -
  from main_start_Inr [OF assms(1)] obtain dev_info where
    d: "samplerate env = main_samplerate a dev_info" "stream_samplerate st = samplerate env"
       "stream_channels st = 1"
    by blast
  have nz: "arg_samplerate a \<noteq> 0" and pos: "0 < arg_samplerate a" using assms(2) by auto
  have sr: "samplerate env = arg_samplerate a"
    using d(1) main_samplerate_given [OF nz] by simp
  have idle: "\<not> recording initial_state" by (simp add: initial_state_def)
  from main_loop_written_header [OF idle assms(3,4)]
  have h: "nchannels f = 1" "sampwidth f = 2" "framerate f = samplerate env" by simp_all
  have w: "write_wav True path audio (arg_samplerate a) =
           Inr (path, \<lparr> nchannels = 1, sampwidth = 2, framerate = arg_samplerate a,
                        frames = tobytes audio \<rparr>)"
    using pos by (simp add: write_wav_def)
  show ?thesis using h d sr w by simp
qed

theorem clip_header_matches_capture_witness:
  "main_start demo_platform (parse_args demo_cmdline) =
     Inr (\<lparr> stream_samplerate = 16000, stream_blocksize = 480, stream_channels = 1,
            stream_device = 2 \<rparr>, demo_env 150) \<and>
   arg_samplerate (parse_args demo_cmdline) \<in> {8000, 16000, 44100} \<and>
   main_loop (demo_env 150) initial_state scenario =
     Inr (\<lparr> buf = [], last_voice_ts = Some (epoch (clock_at 60)), recording = False \<rparr>,
          [(''/mnt/wodehouse_data/shared/audio/clip_20231114_221320.wav'',
            \<lparr> nchannels = 1, sampwidth = 2, framerate = 16000,
              frames = tobytes (concat [speech_samples, speech_samples, quiet_samples, quiet_samples,
                 quiet_samples, quiet_samples, quiet_samples]) \<rparr>)]) \<and>
   write_wav True ''clip.wav'' speech_samples 16000 =
     Inr (''clip.wav'', \<lparr> nchannels = 1, sampwidth = 2, framerate = 16000,
                          frames = tobytes speech_samples \<rparr>)"
proof -
  note h1 = main_start_demo
  have h2: "arg_samplerate (parse_args demo_cmdline) \<in> {8000, 16000, 44100}"
    by (simp add: parse_args_def demo_cmdline_def with_default_def)
  note h3 = scenario_full
  have h4: "(''/mnt/wodehouse_data/shared/audio/clip_20231114_221320.wav'',
            \<lparr> nchannels = 1, sampwidth = 2, framerate = 16000,
              frames = tobytes (concat [speech_samples, speech_samples, quiet_samples, quiet_samples,
                 quiet_samples, quiet_samples, quiet_samples]) \<rparr>)
        \<in> set [(''/mnt/wodehouse_data/shared/audio/clip_20231114_221320.wav'',
            \<lparr> nchannels = 1, sampwidth = 2, framerate = 16000,
              frames = tobytes (concat [speech_samples, speech_samples, quiet_samples, quiet_samples,
                 quiet_samples, quiet_samples, quiet_samples]) \<rparr>)]"
    by simp
  have sr: "arg_samplerate (parse_args demo_cmdline) = 16000"
    by (simp add: parse_args_def demo_cmdline_def with_default_def)
  from clip_header_matches_capture [OF h1 h2 h3 h4, of "''clip.wav''" speech_samples] h1 h2 h3 sr
  show ?thesis by simp
qed

subsection \<open>A clip that cannot be written\<close>

lemma scenario_unwritable_first_six:
  "main_loop (demo_env 150) initial_state (take 6 scenario_unwritable) =
     Inr (\<lparr> buf = [speech_samples, speech_samples, quiet_samples, quiet_samples, quiet_samples,
                    quiet_samples],
            last_voice_ts = Some (epoch (clock_at 60)), recording = True \<rparr>, [])"
  by (simp add: scenario_unwritable_def scenario_def demo_simps)

lemma scenario_unwritable_first_seven:
  "main_loop (demo_env 150) initial_state (take 7 scenario_unwritable) = Inl OSError"
  by (simp add: scenario_unwritable_def scenario_def demo_simps)

lemma scenario_unwritable_run:
  "main_loop (demo_env 150) initial_state scenario_unwritable = Inl OSError"
  by (simp add: scenario_unwritable_def scenario_def demo_simps)

text \<open>
  Claim C4, as stated, fails: a write failure is not confined to the utterance. On the 30
  ms scenario with a disk that refuses the file, the loop is Recording after the sixth
  block, and the seventh block, which finalizes, ends the loop with \<^verbatim>\<open>OSError\<close>: the
  four blocks that follow are never consumed and there is no return to Idle.
\<close>

theorem write_failure_stops_capture:
  "main_loop (demo_env 150) initial_state (take 6 scenario_unwritable) =
     Inr (\<lparr> buf = [speech_samples, speech_samples, quiet_samples, quiet_samples, quiet_samples,
                    quiet_samples],
            last_voice_ts = Some (epoch (clock_at 60)), recording = True \<rparr>, []) \<and>
   main_loop (demo_env 150) initial_state (take 7 scenario_unwritable) = Inl OSError \<and>
   main_loop (demo_env 150) initial_state scenario_unwritable = Inl OSError \<and>
   length scenario_unwritable = 11"
  using scenario_unwritable_first_six scenario_unwritable_first_seven scenario_unwritable_run
  by (simp add: scenario_unwritable_def scenario_def)

text \<open>
  Claim C4, amended. If the iteration that finalizes an utterance cannot create the clip
  file, \<^verbatim>\<open>write_wav\<close> raises \<^verbatim>\<open>OSError\<close>, nothing catches it, and the capture loop
  ends with that exception whatever blocks are still to come.
\<close>

theorem write_failure_leaves_loop:
  assumes "main_loop env s pre = Inr (s1, ws)"
    and "is_speech_chunk env (frame ev) = Inr sp"
    and "recording s1 \<or> sp"
    and "frombuffer_int16 (frame ev) = Inr arr"
    and "silence_elapsed (if sp then Some (epoch (at_voice ev)) else last_voice_ts s1)
           (epoch (at_check ev)) (silence_ms env)"
    and "\<not> can_write ev"
  shows "loop_body env s1 ev = Inl OSError \<and> main_loop env s (pre @ ev # rest) = Inl OSError"
proof -
  have b: "loop_body env s1 ev = Inl OSError"
    using assms(2-6) by (simp add: loop_body_eq)
  then have "main_loop env s1 (ev # rest) = Inl OSError" by simp
  with assms(1) have "main_loop env s (pre @ ev # rest) = Inl OSError"
    by (simp add: main_loop_append)
  with b show ?thesis by simp
qed

theorem write_failure_leaves_loop_witness:
  "main_loop (demo_env 150) initial_state (take 6 scenario_unwritable) =
     Inr (\<lparr> buf = [speech_samples, speech_samples, quiet_samples, quiet_samples, quiet_samples,
                    quiet_samples],
            last_voice_ts = Some (epoch (clock_at 60)), recording = True \<rparr>, []) \<and>
   is_speech_chunk (demo_env 150) (frame (block_at quiet_block (clock_at 210) False)) = Inr False \<and>
   frombuffer_int16 (frame (block_at quiet_block (clock_at 210) False)) = Inr quiet_samples \<and>
   silence_elapsed (Some (epoch (clock_at 60)))
     (epoch (at_check (block_at quiet_block (clock_at 210) False))) (silence_ms (demo_env 150)) \<and>
   \<not> can_write (block_at quiet_block (clock_at 210) False) \<and>
   loop_body (demo_env 150)
     \<lparr> buf = [speech_samples, speech_samples, quiet_samples, quiet_samples, quiet_samples,
                    quiet_samples],
            last_voice_ts = Some (epoch (clock_at 60)), recording = True \<rparr>
     (block_at quiet_block (clock_at 210) False) = Inl OSError \<and>
   main_loop (demo_env 150) initial_state
     (take 6 scenario_unwritable @ block_at quiet_block (clock_at 210) False # drop 7 scenario_unwritable) =
     Inl OSError"
proof -
  let ?ev = "block_at quiet_block (clock_at 210) False"
  let ?s1 = "\<lparr> buf = [speech_samples, speech_samples, quiet_samples, quiet_samples, quiet_samples,
                    quiet_samples],
            last_voice_ts = Some (epoch (clock_at 60)), recording = True \<rparr>"
  note h1 = scenario_unwritable_first_six
  have h2: "is_speech_chunk (demo_env 150) (frame ?ev) = Inr False"
    by (simp add: demo_simps)
  have h3: "recording ?s1 \<or> False" by simp
  have h4: "frombuffer_int16 (frame ?ev) = Inr quiet_samples" by (simp add: demo_simps)
  have h5: "silence_elapsed (if False then Some (epoch (at_voice ?ev)) else last_voice_ts ?s1)
           (epoch (at_check ?ev)) (silence_ms (demo_env 150))"
    by (simp add: demo_simps)
  have h6: "\<not> can_write ?ev" by (simp add: block_at_def)
  from write_failure_leaves_loop [OF h1 h2 h3 h4 h5 h6, of "drop 7 scenario_unwritable"] h1 h2 h4 h5 h6
  show ?thesis by simp
qed

subsection \<open>The effective sample rate\<close>

text \<open>
  What line 115 computes: a rate given on the command line and different from zero is
  the effective rate; without \<^verbatim>\<open>--samplerate\<close> the option holds its default 16000, so
  the effective rate is 16000 whatever the device reports; the rate of the device is
  reached only with \<^verbatim>\<open>--samplerate 0\<close>.
\<close>

lemma main_samplerate_cases:
  "(opt_samplerate c = None \<longrightarrow> main_samplerate (parse_args c) dev_info = 16000) \<and>
   (opt_samplerate c = Some r \<and> r \<noteq> 0 \<longrightarrow> main_samplerate (parse_args c) dev_info = r) \<and>
   (opt_samplerate c = Some 0 \<longrightarrow>
      main_samplerate (parse_args c) dev_info =
        (case default_samplerate dev_info of
           None \<Rightarrow> 16000
         | Some d \<Rightarrow> if py_int_of_float d = 0 then 16000 else py_int_of_float d))"
  by (auto simp: main_samplerate_def parse_args_def with_default_def py_int_of_float_def Let_def
       split: option.splits)

text \<open>
  Claim C9. With the \<^verbatim>\<open>--samplerate\<close> option unset the effective rate is meant to fall
  back to the default rate the device reports, and line 115 is written for that
  (\<^verbatim>\<open>args.samplerate or dev_info.get("default_samplerate", 16000)\<close>). The code does not do
  it: line 97 gives the option the default 16000, so with no option on the command line
  and a device that reports 44100 Hz the effective rate is 16000 Hz, not 44100 Hz.
\<close>

theorem samplerate_unset_ignores_device:
  "opt_samplerate \<lparr> opt_device = None, opt_aggressiveness = None, opt_silence_ms = None,
                    opt_samplerate = None, opt_block_ms = None, opt_list_devices = False \<rparr> = None \<and>
   main_samplerate
     (parse_args \<lparr> opt_device = None, opt_aggressiveness = None, opt_silence_ms = None,
                   opt_samplerate = None, opt_block_ms = None, opt_list_devices = False \<rparr>)
     \<lparr> name = ''USB Microphone'', max_input_channels = 1, default_samplerate = Some 44100 \<rparr>
   = 16000 \<and>
   main_samplerate
     (parse_args \<lparr> opt_device = None, opt_aggressiveness = None, opt_silence_ms = None,
                   opt_samplerate = Some 0, opt_block_ms = None, opt_list_devices = False \<rparr>)
     \<lparr> name = ''USB Microphone'', max_input_channels = 1, default_samplerate = Some 44100 \<rparr>
   = 44100"
  by (simp add: main_samplerate_def parse_args_def with_default_def py_int_of_float_def)

subsection \<open>Device selection\<close>





lemma py_int_str_2: "py_int_str ''2'' = 2"
  by (simp add: py_int_str_def digit_value_def)

lemma py_int_2: "py_int ''2'' = Inr 2"
  by (simp add: py_int_def py_int_str_2)



subsection \<open>No block, no clip\<close>

lemma loop_body_writes:
  assumes "loop_body env s ev = Inr (s', Some (p, f))"
  shows "\<exists>sp arr. is_speech_chunk env (frame ev) = Inr sp \<and> (recording s \<or> sp) \<and>
           frombuffer_int16 (frame ev) = Inr arr \<and>
           silence_elapsed (if sp then Some (epoch (at_voice ev)) else last_voice_ts s)
             (epoch (at_check ev)) (silence_ms env) \<and>
           frames f = tobytes (concat ((if recording s then buf s else []) @ [arr]))"
proof (cases "is_speech_chunk env (frame ev)")
  case (Inl e)
  with assms show ?thesis by (simp add: loop_body_eq)
next
  case sp: (Inr sp)
  show ?thesis
  proof (cases "frombuffer_int16 (frame ev)")
    case (Inl e)
    with sp assms show ?thesis by (simp add: loop_body_eq split: if_splits)
  next
    case (Inr arr)
    with sp assms show ?thesis by (auto simp: loop_body_eq split: if_splits)
  qed
qed

lemma sys_step_blocked:
  assumes "sys_step env c a c'" "queue c = []" "\<not> is_delivery a"
  shows "ep c' = ep c \<and> saved c' = saved c \<and> queue c' = [] \<and> wall c \<le> wall c'"
  using assms(1)
proof (cases rule: sys_step.cases)
  case (elapse d)
  with assms(2) show ?thesis by simp
next
  case (deliver b)
  with assms(3) show ?thesis by simp
next
  case (iterate b bs r1 r2 r3 w s' out)
  with assms(2) show ?thesis by simp
qed

lemma sys_run_no_delivery:
  assumes "sys_run env c as c'" "queue c = []" "\<forall>a \<in> set as. \<not> is_delivery a"
  shows "ep c' = ep c \<and> saved c' = saved c \<and> queue c' = [] \<and> wall c \<le> wall c'"
  using assms
proof (induction rule: sys_run.induct)
  case (run_nil c)
  then show ?case by simp
next
  case (run_cons c a c' as c'')
  have "\<not> is_delivery a" using run_cons.prems(2) by simp
  with run_cons.hyps(1) run_cons.prems(1)
  have st: "ep c' = ep c \<and> saved c' = saved c \<and> queue c' = [] \<and> wall c \<le> wall c'"
    by (rule sys_step_blocked)
  moreover have "\<forall>a \<in> set as. \<not> is_delivery a" using run_cons.prems(2) by simp
  ultimately show ?case using run_cons.IH by simp
qed

text \<open>
  Claim C10. The loop writes a clip only in an iteration that took a block from the
  queue, appended its samples to the buffer and then found the silence timeout exceeded
  at its own reading of the clock. So when the queue is empty and no block is delivered,
  nothing the system can do changes the loop's state or writes a file, however far the
  wall clock advances; and the wall clock can advance by any amount: an utterance in
  progress is then never finalized.
\<close>

theorem no_frame_no_finalization:
  "(loop_body env s ev = Inr (s', Some (p, f)) \<longrightarrow>
      (\<exists>sp arr. is_speech_chunk env (frame ev) = Inr sp \<and> (recording s \<or> sp) \<and>
         frombuffer_int16 (frame ev) = Inr arr \<and>
         silence_elapsed (if sp then Some (epoch (at_voice ev)) else last_voice_ts s)
           (epoch (at_check ev)) (silence_ms env) \<and>
         frames f = tobytes (concat ((if recording s then buf s else []) @ [arr])))) \<and>
   (sys_run env c as c' \<and> queue c = [] \<and> (\<forall>a \<in> set as. \<not> is_delivery a) \<longrightarrow>
      ep c' = ep c \<and> saved c' = saved c \<and> queue c' = [] \<and> wall c \<le> wall c') \<and>
   (0 \<le> d \<longrightarrow> sys_run env c [Elapse d] (c\<lparr>wall := wall c + d\<rparr>))"
proof -
  have A: "loop_body env s ev = Inr (s', Some (p, f)) \<longrightarrow>
      (\<exists>sp arr. is_speech_chunk env (frame ev) = Inr sp \<and> (recording s \<or> sp) \<and>
         frombuffer_int16 (frame ev) = Inr arr \<and>
         silence_elapsed (if sp then Some (epoch (at_voice ev)) else last_voice_ts s)
           (epoch (at_check ev)) (silence_ms env) \<and>
         frames f = tobytes (concat ((if recording s then buf s else []) @ [arr])))"
    by (rule impI) (rule loop_body_writes)
  have B: "sys_run env c as c' \<and> queue c = [] \<and> (\<forall>a \<in> set as. \<not> is_delivery a) \<longrightarrow>
      ep c' = ep c \<and> saved c' = saved c \<and> queue c' = [] \<and> wall c \<le> wall c'"
  proof (rule impI)
    assume h: "sys_run env c as c' \<and> queue c = [] \<and> (\<forall>a \<in> set as. \<not> is_delivery a)"
    then have "sys_run env c as c'" "queue c = []" "\<forall>a \<in> set as. \<not> is_delivery a"
      by simp_all
    then show "ep c' = ep c \<and> saved c' = saved c \<and> queue c' = [] \<and> wall c \<le> wall c'"
      by (rule sys_run_no_delivery)
  qed
  have C: "0 \<le> d \<longrightarrow> sys_run env c [Elapse d] (c\<lparr>wall := wall c + d\<rparr>)"
  proof (rule impI)
    assume "0 \<le> d"
    then have "sys_step env c (Elapse d) (c\<lparr>wall := wall c + d\<rparr>)" by (rule sys_step.elapse)
    then show "sys_run env c [Elapse d] (c\<lparr>wall := wall c + d\<rparr>)"
      by (rule sys_run.run_cons) (rule sys_run.run_nil)
  qed
  show ?thesis by (rule conjI [OF A conjI [OF B C]])
qed

theorem no_frame_no_finalization_witness:
  "(0::real) \<le> 3600 \<and> queue waiting = [] \<and> recording (ep waiting) \<and>
   \<not> is_delivery (Elapse 3600) \<and>
   sys_run (demo_env 150) waiting [Elapse 3600] (waiting\<lparr>wall := wall waiting + 3600\<rparr>) \<and>
   ep (waiting\<lparr>wall := wall waiting + 3600\<rparr>) = ep waiting \<and>
   saved (waiting\<lparr>wall := wall waiting + 3600\<rparr>) = [] \<and>
   silence_elapsed (last_voice_ts (ep waiting)) (wall (waiting\<lparr>wall := wall waiting + 3600\<rparr>))
     (silence_ms (demo_env 150))"
proof -
  have h0: "(0::real) \<le> 3600" by simp
  have h1: "queue waiting = []" by (simp add: waiting_def)
  have h2: "\<forall>a \<in> set [Elapse 3600]. \<not> is_delivery a" by simp
  from no_frame_no_finalization [where d = 3600 and c = waiting and env = "demo_env 150"] h0
  have r: "sys_run (demo_env 150) waiting [Elapse 3600] (waiting\<lparr>wall := wall waiting + 3600\<rparr>)"
    by simp
  from no_frame_no_finalization [where c = waiting and env = "demo_env 150"
      and as = "[Elapse 3600]" and c' = "waiting\<lparr>wall := wall waiting + 3600\<rparr>"] r h1 h2
  have u: "ep (waiting\<lparr>wall := wall waiting + 3600\<rparr>) = ep waiting \<and>
           saved (waiting\<lparr>wall := wall waiting + 3600\<rparr>) = saved waiting"
    by simp
  have t: "silence_elapsed (last_voice_ts (ep waiting))
             (wall (waiting\<lparr>wall := wall waiting + 3600\<rparr>)) (silence_ms (demo_env 150))"
    by (simp add: waiting_def silence_elapsed_def demo_env_def clock_at_def float64_of_ms_def)
  have rec: "recording (ep waiting)" by (simp add: waiting_def)
  have sv: "saved waiting = []" by (simp add: waiting_def)
  show ?thesis using h0 h1 h2 r u t rec sv by simp
qed

end
